theory Spec2Isabelle
  imports Complex_Main
begin

section \<open>JavaScript numbers and values\<close>

text \<open>
  A JavaScript number is an IEEE double: \<open>Num r\<close> for a finite one with the value
  \<open>r\<close>, or one of the three values that are not finite. The sign of zero is not
  modelled.
\<close>

datatype jsnum = Num real | PosInf | NegInf | NaN

fun isFinite :: "jsnum \<Rightarrow> bool" where
  "isFinite (Num r) = True"
| "isFinite PosInf = False"
| "isFinite NegInf = False"
| "isFinite NaN = False"

text \<open>
  Rounding a real to the nearest double, a tie to the even significand: \<open>expo2 x\<close> is
  the exponent \<open>e\<close> with \<open>2\<^sup>e \<le> x < 2\<^sup>e\<^sup>+\<^sup>1\<close> for a positive \<open>x\<close>; a double has 53
  significant bits and its unit in the last place is never below \<open>2\<^sup>-\<^sup>1\<^sup>0\<^sup>7\<^sup>4\<close>; a
  result of \<open>2\<^sup>1\<^sup>0\<^sup>2\<^sup>4\<close> or more is infinite.
\<close>

fun bit_length :: "nat \<Rightarrow> nat" where
  "bit_length n = (if n = 0 then 0 else Suc (bit_length (n div 2)))"

declare bit_length.simps [simp del]

definition expo2 :: "real \<Rightarrow> int" where
  "expo2 x =
     (if 1 \<le> x then int (bit_length (nat \<lfloor>x\<rfloor>)) - 1
      else - int (bit_length (nat (\<lceil>1 / x\<rceil> - 1))))"

definition pow2 :: "int \<Rightarrow> real" where
  "pow2 k = (if 0 \<le> k then 2 ^ nat k else 1 / 2 ^ nat (- k))"

definition round_even :: "real \<Rightarrow> int" where
  "round_even x =
     (let n = \<lfloor>x\<rfloor>; d = x - of_int n
      in if d < 1 / 2 then n else if 1 / 2 < d then n + 1
         else if even n then n else n + 1)"

text \<open>The unit in the last place at a positive \<open>x\<close>, and the multiple of it nearest
  to \<open>x\<close>.\<close>

definition ulp_of :: "real \<Rightarrow> real" where
  "ulp_of x = pow2 (max (expo2 x) (- 1022) - 52)"

definition nearest :: "real \<Rightarrow> real" where
  "nearest x = of_int (round_even (x / ulp_of x)) * ulp_of x"

definition to_double :: "real \<Rightarrow> jsnum" where
  "to_double x =
     (if x = 0 then Num 0
      else let y = nearest \<bar>x\<bar>
           in if 2 ^ 1024 \<le> y then (if 0 < x then PosInf else NegInf)
              else Num (if 0 < x then y else - y))"

text \<open>The operator \<^verbatim>\<open>/\<close> on numbers: the quotient of two finite numbers is rounded
  to a double; a zero divisor is taken as \<open>+0\<close>.\<close>

fun js_div :: "jsnum \<Rightarrow> jsnum \<Rightarrow> jsnum" where
  "js_div (Num a) (Num b) =
     (if b = 0 then (if a = 0 then NaN else if 0 < a then PosInf else NegInf)
      else to_double (a / b))"
| "js_div (Num a) PosInf = Num 0"
| "js_div (Num a) NegInf = Num 0"
| "js_div PosInf (Num b) = (if 0 \<le> b then PosInf else NegInf)"
| "js_div NegInf (Num b) = (if 0 \<le> b then NegInf else PosInf)"
| "js_div PosInf PosInf = NaN"
| "js_div PosInf NegInf = NaN"
| "js_div NegInf PosInf = NaN"
| "js_div NegInf NegInf = NaN"
| "js_div NaN _ = NaN"
| "js_div _ NaN = NaN"

text \<open>The operator \<^verbatim>\<open>-\<close> on two finite numbers.\<close>

definition js_sub :: "real \<Rightarrow> real \<Rightarrow> jsnum" where
  "js_sub a b = to_double (a - b)"

text \<open>\<^verbatim>\<open>Math.round\<close> rounds to the nearest integer, a tie towards \<open>+\<infinity>\<close>,
  which is \<^const>\<open>round\<close> on the reals; the result is a double again.\<close>

fun Math_round :: "jsnum \<Rightarrow> jsnum" where
  "Math_round (Num r) = Num (of_int (round r))"
| "Math_round n = n"

fun Math_max :: "jsnum \<Rightarrow> jsnum \<Rightarrow> jsnum" where
  "Math_max NaN _ = NaN"
| "Math_max _ NaN = NaN"
| "Math_max PosInf _ = PosInf"
| "Math_max _ PosInf = PosInf"
| "Math_max NegInf b = b"
| "Math_max a NegInf = a"
| "Math_max (Num a) (Num b) = Num (max a b)"

fun Math_min :: "jsnum \<Rightarrow> jsnum \<Rightarrow> jsnum" where
  "Math_min NaN _ = NaN"
| "Math_min _ NaN = NaN"
| "Math_min NegInf _ = NegInf"
| "Math_min _ NegInf = NegInf"
| "Math_min PosInf b = b"
| "Math_min a PosInf = a"
| "Math_min (Num a) (Num b) = Num (min a b)"

text \<open>Decimal digits of a natural number and of an integer.\<close>

fun digits :: "nat \<Rightarrow> string" where
  "digits n =
     (if n < 10 then [''0123456789'' ! n]
      else digits (n div 10) @ [''0123456789'' ! (n mod 10)])"

definition show_int :: "int \<Rightarrow> string" where
  "show_int i = (if i < 0 then CHR ''-'' # digits (nat (- i)) else digits (nat i))"

text \<open>
  \<^verbatim>\<open>Number.prototype.toString\<close>. An integral value below \<open>10\<^sup>2\<^sup>1\<close> prints as its
  decimal digits; the engine's shortest round-trip printing of every other finite
  value is the parameter \<open>fmt\<close>.
\<close>

fun Number_toString :: "(real \<Rightarrow> string) \<Rightarrow> jsnum \<Rightarrow> string" where
  "Number_toString fmt NaN = ''NaN''"
| "Number_toString fmt PosInf = ''Infinity''"
| "Number_toString fmt NegInf = ''-Infinity''"
| "Number_toString fmt (Num r) =
     (if of_int \<lfloor>r\<rfloor> = r \<and> \<bar>r\<bar> < 10 ^ 21 then show_int \<lfloor>r\<rfloor> else fmt r)"

text \<open>\<^verbatim>\<open>n.toFixed(6)\<close>: the nearest multiple of \<open>10\<^sup>-\<^sup>6\<close>, a tie to the larger one,
  printed with six decimals.\<close>

definition pad6 :: "string \<Rightarrow> string" where
  "pad6 s = replicate (6 - length s) CHR ''0'' @ s"

definition fixed6 :: "real \<Rightarrow> string" where
  "fixed6 r =
     (let n = nat (round (r * 1000000))
      in digits (n div 1000000) @ ''.'' @ pad6 (digits (n mod 1000000)))"

fun toFixed6 :: "(real \<Rightarrow> string) \<Rightarrow> jsnum \<Rightarrow> string" where
  "toFixed6 fmt (Num r) =
     (if 10 ^ 21 \<le> \<bar>r\<bar> then fmt r
      else if r < 0 then CHR ''-'' # fixed6 (- r) else fixed6 r)"
| "toFixed6 fmt n = Number_toString fmt n"

text \<open>The values that reach the CSV encoders: \<^verbatim>\<open>null\<close>, \<^verbatim>\<open>undefined\<close>, strings,
  numbers, and any other object or function, given by the text \<^verbatim>\<open>String\<close> yields
  for it.\<close>

datatype jsval = JNull | JUndefined | JStr string | JNum jsnum | JObject string

fun js_String :: "(real \<Rightarrow> string) \<Rightarrow> jsval \<Rightarrow> string" where
  "js_String fmt JNull = ''null''"
| "js_String fmt JUndefined = ''undefined''"
| "js_String fmt (JStr s) = s"
| "js_String fmt (JNum n) = Number_toString fmt n"
| "js_String fmt (JObject s) = s"

text \<open>
  A row object is its list of own properties in the order \<^verbatim>\<open>Object.keys\<close>
  enumerates them. \<^verbatim>\<open>r[k]\<close> is the own property \<open>k\<close>; for a key the row does not
  own it is the property the row inherits from \<^verbatim>\<open>Object.prototype\<close> (the
  parameter \<open>proto\<close>: \<^verbatim>\<open>constructor\<close>, \<^verbatim>\<open>toString\<close> and the like), and
  \<^verbatim>\<open>undefined\<close> when there is none.
\<close>

type_synonym row = "(string \<times> jsval) list"

definition Object_keys :: "row \<Rightarrow> string list" where
  "Object_keys r = map fst r"

definition get_prop :: "(string \<Rightarrow> jsval option) \<Rightarrow> row \<Rightarrow> string \<Rightarrow> jsval" where
  "get_prop proto r k =
     (case map_of r k of
        Some v \<Rightarrow> v
      | None \<Rightarrow> (case proto k of Some v \<Rightarrow> v | None \<Rightarrow> JUndefined))"

text \<open>\<^verbatim>\<open>Array.prototype.join\<close> on an array of strings.\<close>

fun join :: "string \<Rightarrow> string list \<Rightarrow> string" where
  "join sep [] = []"
| "join sep [x] = x"
| "join sep (x # y # ys) = x @ sep @ join sep (y # ys)"

section \<open>CSV export\<close>

definition dquote :: char where
  "dquote = CHR 0x22"

definition newline :: char where
  "newline = CHR 0x0A"

text \<open>\<^verbatim>\<open>/[,"\n]/.test(s)\<close>\<close>

definition needs_quoting :: "string \<Rightarrow> bool" where
  "needs_quoting s = (CHR '','' \<in> set s \<or> dquote \<in> set s \<or> newline \<in> set s)"

text \<open>\<^verbatim>\<open>s.replace(/"/g, '""')\<close>\<close>

definition double_quotes :: "string \<Rightarrow> string" where
  "double_quotes s = concat (map (\<lambda>c. if c = dquote then [dquote, dquote] else [c]) s)"

text \<open>
  \<^verbatim>\<open>csvEscape\<close> of the application shell (the exporter of the psychometric
  responses and of the demographics). The template literal is
  \<^verbatim>\<open>`"${s.replace(/"/g, '""')}"`\<close>.
\<close>

definition csvEscape_App :: "(real \<Rightarrow> string) \<Rightarrow> jsval \<Rightarrow> string" where
  "csvEscape_App fmt v =
     (if v = JNull \<or> v = JUndefined then []
      else let s = js_String fmt v
           in if needs_quoting s then [dquote] @ double_quotes s @ [dquote] else s)"

text \<open>
  \<^verbatim>\<open>csvEscape\<close> of \<^verbatim>\<open>GazeRecorder.jsx\<close> (the exporter of the gaze samples and of
  the audio log). Its template literal is written \<^verbatim>\<open>`"\${s.replace(/"/g, '""')}"`\<close>:
  the backslash escapes the dollar sign, so nothing is substituted and the literal
  evaluates to the fixed text below.
\<close>

definition escaped_template :: string where
  "escaped_template =
     [dquote] @ ''${s.replace(/'' @ [dquote] @ ''/g, '' @ [CHR 0x27, dquote, dquote, CHR 0x27]
       @ '')}'' @ [dquote]"

definition csvEscape_GazeRecorder :: "(real \<Rightarrow> string) \<Rightarrow> jsval \<Rightarrow> string" where
  "csvEscape_GazeRecorder fmt v =
     (if v = JNull \<or> v = JUndefined then []
      else let s = js_String fmt v
           in if needs_quoting s then escaped_template else s)"

text \<open>A \<^verbatim>\<open>Set\<close> of strings keeps its elements in insertion order.\<close>

definition Set_add :: "string list \<Rightarrow> string \<Rightarrow> string list" where
  "Set_add hs k = (if k \<in> set hs then hs else hs @ [k])"

definition header_App :: "row list \<Rightarrow> string list" where
  "header_App rows = foldl (\<lambda>hs r. foldl Set_add hs (Object_keys r)) [] rows"

text \<open>
  \<^verbatim>\<open>downloadCsv\<close>: nothing is downloaded for an empty list of rows; otherwise the
  result is the file name and the text of the blob.
\<close>

definition csv_lines ::
  "(jsval \<Rightarrow> string) \<Rightarrow> (string \<Rightarrow> jsval option) \<Rightarrow> string list \<Rightarrow> row list
    \<Rightarrow> string list" where
  "csv_lines esc proto hdr rows =
     join '','' hdr # map (\<lambda>r. join '','' (map (\<lambda>k. esc (get_prop proto r k)) hdr)) rows"

definition downloadCsv_App ::
  "(real \<Rightarrow> string) \<Rightarrow> (string \<Rightarrow> jsval option) \<Rightarrow> string \<Rightarrow> row list
    \<Rightarrow> (string \<times> string) option" where
  "downloadCsv_App fmt proto filename rows =
     (if rows = [] then None
      else let hdr = header_App rows
           in Some (filename,
                join [newline] (csv_lines (csvEscape_App fmt) proto hdr rows)))"

definition downloadCsv_GazeRecorder ::
  "(real \<Rightarrow> string) \<Rightarrow> (string \<Rightarrow> jsval option) \<Rightarrow> string \<Rightarrow> row list
    \<Rightarrow> (string \<times> string) option" where
  "downloadCsv_GazeRecorder fmt proto filename rows =
     (if rows = [] then None
      else let hdr = Object_keys (hd rows)
           in Some (filename,
                join [newline] (csv_lines (csvEscape_GazeRecorder fmt) proto hdr rows)))"

text \<open>The header the specification asks for: every key of every row, in the order
  of its first occurrence.\<close>

fun first_seen :: "string list \<Rightarrow> string list" where
  "first_seen [] = []"
| "first_seen (k # ks) = k # filter (\<lambda>x. x \<noteq> k) (first_seen ks)"

definition spec_header :: "row list \<Rightarrow> string list" where
  "spec_header rows = first_seen (concat (map Object_keys rows))"

section \<open>The sampling period\<close>

definition periodMs :: "jsnum \<Rightarrow> jsnum" where
  "periodMs sampleHz = Math_max (Num 10) (Math_round (js_div (Num 1000) sampleHz))"

section \<open>The recorder component\<close>

text \<open>\<^verbatim>\<open>clamp(n, lo, hi)\<close> is \<^verbatim>\<open>Math.max(lo, Math.min(hi, n))\<close>.\<close>

definition clamp :: "jsnum \<Rightarrow> jsnum \<Rightarrow> jsnum \<Rightarrow> jsnum" where
  "clamp n lo hi = Math_max lo (Math_min hi n)"

text \<open>
  \<^verbatim>\<open>make9PointGrid(w, h)\<close>: the outer loop runs over \<open>ys\<close>, the inner one over
  \<open>xs\<close>. The viewport's width and height are finite numbers; the products are
  taken on the reals, which for the whole-number sizes of a viewport round as the
  products of the doubles do.
\<close>

definition make9PointGrid :: "real \<Rightarrow> real \<Rightarrow> (int \<times> int) list" where
  "make9PointGrid w h =
     (let xs = map (\<lambda>p. round (p * w)) [1 / 10, 1 / 2, 9 / 10];
          ys = map (\<lambda>p. round (p * h)) [1 / 10, 1 / 2, 9 / 10]
      in concat (map (\<lambda>y. map (\<lambda>x. (x, y)) xs) ys))"

text \<open>The payload of the gaze listener and the point kept in the slot.\<close>

record gaze_data =
  data_x :: jsnum
  data_y :: jsnum

record gaze_point =
  gaze_x :: jsnum
  gaze_y :: jsnum
  gaze_ts :: real

text \<open>
  What a sampler tick reads from the browser: the viewport, the scroll offset,
  \<^verbatim>\<open>performance.now()\<close>, the result of \<^verbatim>\<open>getDomContextAtPoint\<close> as a function
  of the point, and the result of \<^verbatim>\<open>getActiveQuestionId\<close>.
\<close>

record dom_context =
  content_id :: jsval
  content_type :: jsval
  element_tag :: jsval
  element_id :: jsval
  element_class :: jsval
  bbox_x :: jsval
  bbox_y :: jsval
  bbox_w :: jsval
  bbox_h :: jsval

record window =
  innerWidth :: real
  innerHeight :: real
  scrollY :: real
  now :: real
  getDomContextAtPoint :: "jsnum \<Rightarrow> jsnum \<Rightarrow> dom_context"
  getActiveQuestionId :: string

text \<open>The context \<^verbatim>\<open>getDomContextAtPoint\<close> returns where no element is hit.\<close>

definition blank_context :: dom_context where
  "blank_context =
     \<lparr>content_id = JStr [], content_type = JStr [], element_tag = JStr [],
      element_id = JStr [], element_class = JStr [], bbox_x = JStr [], bbox_y = JStr [],
      bbox_w = JStr [], bbox_h = JStr []\<rparr>"

text \<open>
  The state and the refs of the component. \<open>stopped\<close> is the flag of the effect
  that starts WebGazer, \<open>wgRecorded\<close> the calls made to
  \<^verbatim>\<open>webgazer.recordScreenPosition\<close>, \<open>calibPts\<close> the memoised grid.
\<close>

record gr_state =
  ready :: bool
  recording :: bool
  calibrating :: bool
  status :: string
  calibIdx :: nat
  calibClicks :: nat
  samplesRef :: "row list"
  lastGazeRef :: "gaze_point option"
  sessionIdRef :: string
  calibPts :: "(int \<times> int) list"
  recordingStartTsRef :: "real option"
  audioSegmentIdRef :: "string option"
  audioRecordingRef :: bool
  lastAudioTsRef :: "real option"
  stopped :: bool
  wgRecorded :: "(int \<times> int) list"

text \<open>The first render: \<^verbatim>\<open>useMemo\<close> with an empty dependency list computes the
  grid here and never again.\<close>

definition mount :: "window \<Rightarrow> string \<Rightarrow> gr_state" where
  "mount win uuid =
     \<lparr>ready = False, recording = False, calibrating = False, status = ''init'',
      calibIdx = 0, calibClicks = 0, samplesRef = [], lastGazeRef = None,
      sessionIdRef = uuid,
      calibPts = make9PointGrid (innerWidth win) (innerHeight win),
      recordingStartTsRef = None, audioSegmentIdRef = None, audioRecordingRef = False,
      lastAudioTsRef = None, stopped = False, wgRecorded = []\<rparr>"

text \<open>The callback given to \<^verbatim>\<open>setGazeListener\<close>; \<open>t\<close> is \<^verbatim>\<open>performance.now()\<close>.\<close>

definition gazeListener :: "gaze_data option \<Rightarrow> real option \<Rightarrow> real \<Rightarrow> gr_state \<Rightarrow> gr_state" where
  "gazeListener data ts t st =
     (if stopped st then st
      else case data of
        None \<Rightarrow> st
      | Some d \<Rightarrow>
          if \<not> isFinite (data_x d) \<or> \<not> isFinite (data_y d) then st
          else st\<lparr>lastGazeRef :=
                 Some \<lparr>gaze_x = data_x d, gaze_y = data_y d,
                       gaze_ts = (case ts of None \<Rightarrow> t | Some v \<Rightarrow> v)\<rparr>\<rparr>)"

text \<open>The row pushed by a sampler tick for the gaze point \<open>g\<close>.\<close>

definition sample_row :: "(real \<Rightarrow> string) \<Rightarrow> window \<Rightarrow> gr_state \<Rightarrow> gaze_point \<Rightarrow> row" where
  "sample_row fmt win st g =
     (let x = clamp (gaze_x g) (Num 0) (Num (innerWidth win));
          y = clamp (gaze_y g) (Num 0) (Num (innerHeight win));
          ctx = getDomContextAtPoint win x y;
          questionId = getActiveQuestionId win;
          base = (case recordingStartTsRef st of None \<Rightarrow> 0 | Some b \<Rightarrow> b)
      in [(''session_id'', JStr (sessionIdRef st)),
          (''ts_ms'', JNum (Math_round (js_sub (now win) base))),
          (''gaze_x_px'', JNum (Math_round x)),
          (''gaze_y_px'', JNum (Math_round y)),
          (''gaze_x_norm'', JStr (toFixed6 fmt (js_div x (Num (innerWidth win))))),
          (''gaze_y_norm'', JStr (toFixed6 fmt (js_div y (Num (innerHeight win))))),
          (''scroll_y'', JNum (Math_round (Num (scrollY win)))),
          (''audio_recording'', JNum (Num (if audioRecordingRef st then 1 else 0))),
          (''audio_segment_id'',
             JStr (if audioRecordingRef st
                   then (case audioSegmentIdRef st of None \<Rightarrow> [] | Some i \<Rightarrow> i) else [])),
          (''audio_ts_ms'',
             (case lastAudioTsRef st of
                Some a \<Rightarrow> if audioRecordingRef st then JNum (Math_round (js_sub a base))
                          else JStr []
              | None \<Rightarrow> JStr [])),
          (''content_id'', content_id ctx),
          (''content_type'', content_type ctx),
          (''question_id'', JStr questionId),
          (''element_tag'', element_tag ctx),
          (''element_id'', element_id ctx),
          (''element_class'', element_class ctx),
          (''bbox_x'', bbox_x ctx),
          (''bbox_y'', bbox_y ctx),
          (''bbox_w'', bbox_w ctx),
          (''bbox_h'', bbox_h ctx)])"

text \<open>The callback given to \<^verbatim>\<open>setInterval\<close>.\<close>

definition sampler_tick :: "(real \<Rightarrow> string) \<Rightarrow> window \<Rightarrow> gr_state \<Rightarrow> gr_state" where
  "sampler_tick fmt win st =
     (case lastGazeRef st of
        None \<Rightarrow> st
      | Some g \<Rightarrow> st\<lparr>samplesRef := samplesRef st @ [sample_row fmt win st g]\<rparr>)"

text \<open>
  What happens between the start and the stop of one recording: the estimator
  pushes a payload, or the interval fires.
\<close>

datatype session_event =
  Gaze "gaze_data option" "real option" real
| Tick window

fun session_step :: "(real \<Rightarrow> string) \<Rightarrow> gr_state \<Rightarrow> session_event \<Rightarrow> gr_state" where
  "session_step fmt st (Gaze data ts t) = gazeListener data ts t st"
| "session_step fmt st (Tick win) = sampler_tick fmt win st"

definition session_run :: "(real \<Rightarrow> string) \<Rightarrow> gr_state \<Rightarrow> session_event list \<Rightarrow> gr_state" where
  "session_run fmt st evs = foldl (session_step fmt) st evs"

text \<open>The number of ticks of a run at which the slot holds a point.\<close>

fun ticks_with_gaze :: "(real \<Rightarrow> string) \<Rightarrow> gr_state \<Rightarrow> session_event list \<Rightarrow> nat" where
  "ticks_with_gaze fmt st [] = 0"
| "ticks_with_gaze fmt st (Gaze data ts t # evs) =
     ticks_with_gaze fmt (gazeListener data ts t st) evs"
| "ticks_with_gaze fmt st (Tick win # evs) =
     (if lastGazeRef st = None then 0 else 1)
       + ticks_with_gaze fmt (sampler_tick fmt win st) evs"

text \<open>The slot is empty or holds finite coordinates.\<close>

definition slot_finite :: "gr_state \<Rightarrow> bool" where
  "slot_finite st =
     (case lastGazeRef st of
        None \<Rightarrow> True
      | Some g \<Rightarrow> isFinite (gaze_x g) \<and> isFinite (gaze_y g))"

text \<open>
  \<^verbatim>\<open>startRecording\<close> of the component, with the UUID drawn and the clock; its call
  of \<^verbatim>\<open>clearAudioRecordings\<close> acts on the state of the audio hook (\<open>clearRecordings\<close>
  below).
\<close>

definition startRecording_GazeRecorder :: "string \<Rightarrow> real \<Rightarrow> gr_state \<Rightarrow> gr_state" where
  "startRecording_GazeRecorder uuid t st =
     st\<lparr>samplesRef := [], sessionIdRef := uuid, recordingStartTsRef := Some t,
        audioSegmentIdRef := None, recording := True, status := ''recording''\<rparr>"

text \<open>\<^verbatim>\<open>download\<close> of the component: the export of the gaze samples.\<close>

definition download ::
  "(real \<Rightarrow> string) \<Rightarrow> (string \<Rightarrow> jsval option) \<Rightarrow> gr_state
    \<Rightarrow> (string \<times> string) option" where
  "download fmt proto st =
     (let rows = samplesRef st
      in if rows = [] then None
         else downloadCsv_GazeRecorder fmt proto
                (''gaze_session_'' @ sessionIdRef st @ ''.csv'') rows)"

subsection \<open>Calibration\<close>

definition startCalibration :: "gr_state \<Rightarrow> gr_state" where
  "startCalibration st =
     st\<lparr>calibrating := True, calibIdx := 0, calibClicks := 0, status := ''calibrating''\<rparr>"

text \<open>\<^verbatim>\<open>onCalibDotClick(x, y)\<close> with the property \<^verbatim>\<open>clicksPerCalibrationPoint\<close>;
  the call of \<^verbatim>\<open>webgazer.recordScreenPosition(x, y, "click")\<close> is logged in
  \<open>wgRecorded\<close>.\<close>

definition onCalibDotClick :: "nat \<Rightarrow> int \<Rightarrow> int \<Rightarrow> gr_state \<Rightarrow> gr_state" where
  "onCalibDotClick clicksPerCalibrationPoint x y st =
     (let st1 = st\<lparr>wgRecorded := wgRecorded st @ [(x, y)]\<rparr>;
          nextClicks = calibClicks st + 1;
          st2 = st1\<lparr>calibClicks := nextClicks\<rparr>
      in if nextClicks \<ge> clicksPerCalibrationPoint then
           (let nextIdx = calibIdx st + 1;
                st3 = st2\<lparr>calibIdx := nextIdx, calibClicks := 0\<rparr>
            in if nextIdx \<ge> length (calibPts st)
               then st3\<lparr>calibrating := False, status := ''calibration done''\<rparr>
               else st3)
         else st2)"

text \<open>
  The dot is rendered while \<open>calibrating\<close> holds and \<open>calibIdx\<close> is inside the grid;
  a click on it calls the handler with the dot's own coordinates.
\<close>

definition clickDot :: "nat \<Rightarrow> gr_state \<Rightarrow> gr_state" where
  "clickDot clicksPerCalibrationPoint st =
     (if calibrating st \<and> calibIdx st < length (calibPts st)
      then (case calibPts st ! calibIdx st of
              (x, y) \<Rightarrow> onCalibDotClick clicksPerCalibrationPoint x y st)
      else st)"

text \<open>
  What can happen around calibration: the Calibrate button, a click on the dot, a
  resize of the browser window (no handler of the component listens to it), and a
  re-render.
\<close>

datatype calib_event = StartCalibration | ClickDot | Resize real real | Rerender

fun calib_step :: "nat \<Rightarrow> gr_state \<Rightarrow> calib_event \<Rightarrow> gr_state" where
  "calib_step c st StartCalibration = startCalibration st"
| "calib_step c st ClickDot = clickDot c st"
| "calib_step c st (Resize w h) = st"
| "calib_step c st Rerender = st"

section \<open>The audio recorder hook\<close>

text \<open>
  A thrown error object with its \<^verbatim>\<open>name\<close> and \<^verbatim>\<open>message\<close>; \<^verbatim>\<open>String(e)\<close> is
  \<^verbatim>\<open>Error.prototype.toString\<close>.
\<close>

record js_error =
  err_name :: string
  err_message :: string

definition Error_toString :: "js_error \<Rightarrow> string" where
  "Error_toString e =
     (if err_name e = [] then err_message e
      else if err_message e = [] then err_name e
      else err_name e @ '': '' @ err_message e)"

text \<open>\<^verbatim>\<open>a || b\<close> for a string \<open>a\<close> that may be \<^verbatim>\<open>undefined\<close> or \<^verbatim>\<open>null\<close>: the
  empty string is falsy too.\<close>

definition or_else :: "string option \<Rightarrow> string \<Rightarrow> string" where
  "or_else a b = (case a of None \<Rightarrow> b | Some s \<Rightarrow> if s = [] then b else s)"

text \<open>\<^verbatim>\<open>String(e?.message || e)\<close>\<close>

definition caught_message :: "js_error \<Rightarrow> string" where
  "caught_message e = or_else (Some (err_message e)) (Error_toString e)"

datatype recorder_state = Inactive | Recording

text \<open>A \<^verbatim>\<open>MediaRecorder\<close> with the variables its handlers close over.\<close>

record media_recorder =
  r_state :: recorder_state
  r_mimeType :: string
  r_recordingId :: string
  r_startTs :: real

record meta =
  meta_question_id :: string
  meta_session_id :: string

type_synonym chunk = "nat list"

record audio_segment =
  seg_id :: string
  seg_startTs :: real
  seg_stopTs :: real
  seg_durationMs :: jsnum
  seg_mimeType :: string
  seg_blob :: "nat list"
  seg_url :: string
  seg_meta :: "meta option"

text \<open>
  The state and the refs of the hook; \<open>isRecording\<close> is the latest value given to
  \<^verbatim>\<open>setIsRecording\<close>. \<open>startedRecorders\<close> lists the recorders on which
  \<^verbatim>\<open>start()\<close> has been called, in that order.
\<close>

record audio_state =
  isRecording :: bool
  recordings :: "audio_segment list"
  error :: string
  mediaRecorderRef :: "media_recorder option"
  streamRef :: "nat option"
  chunksRef :: "chunk list"
  pendingMetaRef :: "meta option"
  pendingIdRef :: "string option"
  startTsRef :: "real option"
  startedRecorders :: "media_recorder list"

definition audio_init :: audio_state where
  "audio_init =
     \<lparr>isRecording = False, recordings = [], error = [], mediaRecorderRef = None,
      streamRef = None, chunksRef = [], pendingMetaRef = None, pendingIdRef = None,
      startTsRef = None, startedRecorders = []\<rparr>"

text \<open>\<^verbatim>\<open>getAudioMimeType(recorder)\<close>; \<open>supported\<close> is \<^verbatim>\<open>MediaRecorder.isTypeSupported\<close>.\<close>

definition getAudioMimeType :: "(string \<Rightarrow> bool) \<Rightarrow> media_recorder \<Rightarrow> string" where
  "getAudioMimeType supported r =
     (if r_mimeType r \<noteq> [] then r_mimeType r
      else if supported ''audio/webm'' then ''audio/webm''
      else if supported ''audio/ogg'' then ''audio/ogg''
      else if supported ''audio/wav'' then ''audio/wav''
      else ''audio/webm'')"

text \<open>
  What one call of \<^verbatim>\<open>startRecording\<close> meets in the browser: the UUID drawn, the
  clock, the outcome of \<^verbatim>\<open>getUserMedia\<close> (a rejection or a stream), of
  \<^verbatim>\<open>new MediaRecorder(stream)\<close> (an exception or the recorder's mime type) and of
  \<^verbatim>\<open>recorder.start()\<close> (an exception or nothing).
\<close>

record start_env =
  uuid :: string
  t_now :: real
  getUserMedia :: "js_error + nat"
  newMediaRecorder :: "js_error + string"
  recorderStart :: "js_error option"

text \<open>
  \<^verbatim>\<open>startRecording\<close> is an \<^verbatim>\<open>async\<close> function: it runs up to
  \<^verbatim>\<open>await ensureStream()\<close>, is suspended there, and runs its remainder when the
  stream is there or the request has failed; other handlers may run in between. A
  suspended call keeps its \<open>recordingId\<close> and \<open>meta\<close>, and the stream
  \<^verbatim>\<open>ensureStream\<close> found in \<open>streamRef\<close> (\<open>None\<close> when it called
  \<^verbatim>\<open>getUserMedia\<close>).
\<close>

record start_call =
  call_recordingId :: string
  call_meta :: "meta option"
  call_stream :: "nat option"

datatype start_result = Returned "string option" | Suspended start_call

text \<open>
  The part before the \<^verbatim>\<open>await\<close>. The callback is rebuilt by \<^verbatim>\<open>useCallback\<close> at
  a render, with \<^verbatim>\<open>isRecording\<close> among its dependencies: the \<open>isRecording\<close> it tests
  is the value of the render it comes from (\<open>isRecordingOfRender\<close>), not the latest
  one; \<open>pendingIdRef\<close> is a ref and read as it is now.
\<close>

definition startRecording_begin ::
  "bool \<Rightarrow> bool \<Rightarrow> string option \<Rightarrow> meta option \<Rightarrow> start_env \<Rightarrow> audio_state
    \<Rightarrow> start_result \<times> audio_state" where
  "startRecording_begin isSupported isRecordingOfRender rid m env st =
     (if \<not> isSupported then
        (Returned None,
         st\<lparr>error := ''Audio recording is not supported in this browser.''\<rparr>)
      else if isRecordingOfRender then (Returned (pendingIdRef st), st)
      else
        (Suspended \<lparr>call_recordingId = or_else rid (uuid env), call_meta = m,
                     call_stream = streamRef st\<rparr>,
         st\<lparr>error := []\<rparr>))"

text \<open>The remainder of \<^verbatim>\<open>ensureStream\<close>, after its own \<^verbatim>\<open>await\<close>.\<close>

definition ensureStream_resume ::
  "nat option \<Rightarrow> start_env \<Rightarrow> audio_state \<Rightarrow> js_error + (nat \<times> audio_state)" where
  "ensureStream_resume found env st =
     (case found of
        Some s \<Rightarrow> Inr (s, st)
      | None \<Rightarrow>
          (case getUserMedia env of
             Inl e \<Rightarrow> Inl e
           | Inr s \<Rightarrow> Inr (s, st\<lparr>streamRef := Some s\<rparr>)))"

text \<open>The \<^verbatim>\<open>catch\<close> block of \<^verbatim>\<open>startRecording\<close>.\<close>

definition start_catch :: "js_error \<Rightarrow> audio_state \<Rightarrow> string option \<times> audio_state" where
  "start_catch e st = (None, st\<lparr>error := caught_message e, isRecording := False\<rparr>)"

text \<open>The part after the \<^verbatim>\<open>await\<close>, on the state of that later moment. The result
  is the returned id, \<open>None\<close> for \<^verbatim>\<open>null\<close>.\<close>

definition startRecording_resume ::
  "start_call \<Rightarrow> start_env \<Rightarrow> audio_state \<Rightarrow> string option \<times> audio_state" where
  "startRecording_resume c env st =
     (case ensureStream_resume (call_stream c) env st of
        Inl e \<Rightarrow> start_catch e st
      | Inr (stream, st1) \<Rightarrow>
          (case newMediaRecorder env of
             Inl e \<Rightarrow> start_catch e st1
           | Inr mime \<Rightarrow>
               let recordingId = call_recordingId c;
                   startTs = t_now env;
                   recorder = \<lparr>r_state = Recording, r_mimeType = mime,
                                r_recordingId = recordingId, r_startTs = startTs\<rparr>;
                   st2 = st1\<lparr>pendingIdRef := Some recordingId,
                            pendingMetaRef := call_meta c,
                            startTsRef := Some startTs, chunksRef := []\<rparr>
               in (case recorderStart env of
                     Some e \<Rightarrow> start_catch e st2
                   | None \<Rightarrow>
                       (Some recordingId,
                        st2\<lparr>startedRecorders := startedRecorders st2 @ [recorder],
                            mediaRecorderRef := Some recorder,
                            isRecording := True\<rparr>))))"

definition resume_result ::
  "start_result \<Rightarrow> start_env \<Rightarrow> audio_state \<Rightarrow> string option \<times> audio_state" where
  "resume_result res env st =
     (case res of
        Returned r \<Rightarrow> (r, st)
      | Suspended c \<Rightarrow> startRecording_resume c env st)"

text \<open>
  \<^verbatim>\<open>startRecording({ id, meta })\<close> when nothing else runs while the call is
  suspended.
\<close>

definition startRecording ::
  "bool \<Rightarrow> bool \<Rightarrow> string option \<Rightarrow> meta option \<Rightarrow> start_env \<Rightarrow> audio_state
    \<Rightarrow> string option \<times> audio_state" where
  "startRecording isSupported isRecordingOfRender rid m env st =
     (case startRecording_begin isSupported isRecordingOfRender rid m env st of
        (res, st') \<Rightarrow> resume_result res env st')"

text \<open>\<^verbatim>\<open>recorder.ondataavailable\<close>\<close>

definition recorder_ondataavailable :: "chunk \<Rightarrow> audio_state \<Rightarrow> audio_state" where
  "recorder_ondataavailable d st =
     (if length d > 0 then st\<lparr>chunksRef := chunksRef st @ [d]\<rparr> else st)"

text \<open>
  \<^verbatim>\<open>recorder.onstop\<close> of the recorder \<open>r\<close>; \<open>t\<close> is the clock and \<open>url\<close> the
  object URL created for the blob. The new segment is built inside the function given
  to \<^verbatim>\<open>setRecordings\<close>, which reads the three refs when React runs it: at once
  (\<open>eager\<close>), or at the next render, after the handler has cleared them.
\<close>

definition recorder_onstop ::
  "(string \<Rightarrow> bool) \<Rightarrow> real \<Rightarrow> string \<Rightarrow> bool \<Rightarrow> media_recorder \<Rightarrow> audio_state
    \<Rightarrow> audio_state" where
  "recorder_onstop supported t url eager r st =
     (let stopTs = t;
          durationMs = js_sub stopTs (case startTsRef st of None \<Rightarrow> stopTs | Some s \<Rightarrow> s);
          seenId = (if eager then pendingIdRef st else None);
          seenStartTs = (if eager then startTsRef st else None);
          seenMeta = (if eager then pendingMetaRef st else None);
          seg = \<lparr>seg_id = or_else seenId (r_recordingId r),
                 seg_startTs = (case seenStartTs of None \<Rightarrow> r_startTs r | Some s \<Rightarrow> s),
                 seg_stopTs = stopTs,
                 seg_durationMs = durationMs,
                 seg_mimeType = getAudioMimeType supported r,
                 seg_blob = concat (chunksRef st),
                 seg_url = url,
                 seg_meta = seenMeta\<rparr>
      in st\<lparr>recordings := recordings st @ [seg], pendingIdRef := None,
             pendingMetaRef := None, startTsRef := None, chunksRef := [],
             isRecording := False\<rparr>)"

text \<open>\<^verbatim>\<open>recorder.onerror\<close>; \<open>msg\<close> is \<^verbatim>\<open>evt?.error?.message\<close>.\<close>

definition recorder_onerror :: "string option \<Rightarrow> audio_state \<Rightarrow> audio_state" where
  "recorder_onerror msg st =
     st\<lparr>error := or_else msg ''Audio recorder error.'', isRecording := False\<rparr>"

text \<open>\<^verbatim>\<open>stopRecording\<close>: \<^verbatim>\<open>recorder.stop()\<close> makes the recorder inactive; its
  \<^verbatim>\<open>stop\<close> event comes later.\<close>

definition stopRecording :: "audio_state \<Rightarrow> audio_state" where
  "stopRecording st =
     (case mediaRecorderRef st of
        None \<Rightarrow> st
      | Some r \<Rightarrow>
          if r_state r = Recording
          then st\<lparr>mediaRecorderRef := Some (r\<lparr>r_state := Inactive\<rparr>)\<rparr>
          else st)"

definition clearRecordings :: "audio_state \<Rightarrow> audio_state" where
  "clearRecordings st = st\<lparr>recordings := []\<rparr>"

definition clearError :: "audio_state \<Rightarrow> audio_state" where
  "clearError st = st\<lparr>error := []\<rparr>"

section \<open>Sample inputs\<close>

text \<open>A printing function for runs in which only integral numbers are printed.\<close>

definition ex_fmt :: "real \<Rightarrow> string" where
  "ex_fmt r = []"

text \<open>Two of the properties every object inherits.\<close>

definition ex_proto :: "string \<Rightarrow> jsval option" where
  "ex_proto k =
     (if k = ''constructor'' then Some (JObject ''function Object() { [native code] }'')
      else if k = ''toString'' then Some (JObject ''function toString() { [native code] }'')
      else None)"

definition ex_window :: window where
  "ex_window =
     \<lparr>innerWidth = 1000, innerHeight = 800, scrollY = 0, now = 1234,
      getDomContextAtPoint = (\<lambda>x y. blank_context),
      getActiveQuestionId = ''question_1''\<rparr>"

text \<open>Three ticks; the slot is empty at the first and filled before the second; the
  payloads with a \<open>NaN\<close> coordinate and with no data are dropped.\<close>

definition ex_events :: "session_event list" where
  "ex_events =
     [Tick ex_window,
      Gaze (Some \<lparr>data_x = Num 120, data_y = Num 900\<rparr>) None 10,
      Tick ex_window,
      Gaze (Some \<lparr>data_x = NaN, data_y = Num 5\<rparr>) (Some 15) 20,
      Tick ex_window,
      Gaze None None 30]"

text \<open>A recording of one sample: the gaze rests on a button whose class attribute is
  \<^verbatim>\<open>btn,primary\<close>.\<close>

definition ex_button :: dom_context where
  "ex_button =
     \<lparr>content_id = JStr ''btn_next'', content_type = JStr ''nav_button'',
      element_tag = JStr ''button'', element_id = JStr [],
      element_class = JStr ''btn,primary'', bbox_x = JNum (Num 24), bbox_y = JNum (Num 96),
      bbox_w = JNum (Num 80), bbox_h = JNum (Num 40)\<rparr>"

definition ex_window_button :: window where
  "ex_window_button =
     \<lparr>innerWidth = 1000, innerHeight = 800, scrollY = 0, now = 1234,
      getDomContextAtPoint = (\<lambda>x y. ex_button),
      getActiveQuestionId = ''question_1''\<rparr>"

definition ex_recording :: gr_state where
  "ex_recording =
     session_run ex_fmt (startRecording_GazeRecorder ''s1'' 1000 (mount ex_window ''s0''))
       [Gaze (Some \<lparr>data_x = Num 50, data_y = Num 100\<rparr>) None 1100, Tick ex_window_button]"

definition ex_rows :: "row list" where
  "ex_rows = [[(''a'', JStr ''1'')], [(''b'', JStr ''x,y''), (''a'', JNull)]]"

definition ex_env_ok :: start_env where
  "ex_env_ok =
     \<lparr>uuid = ''uuid-1'', t_now = 100, getUserMedia = Inr 1,
      newMediaRecorder = Inr ''audio/webm'', recorderStart = None\<rparr>"

definition ex_env_denied :: start_env where
  "ex_env_denied =
     \<lparr>uuid = ''uuid-2'', t_now = 100,
      getUserMedia = Inl \<lparr>err_name = ''NotAllowedError'', err_message = ''Permission denied''\<rparr>,
      newMediaRecorder = Inr ''audio/webm'', recorderStart = None\<rparr>"

text \<open>
  Two clicks on the button that starts the audio while the first request for the
  microphone is pending: both calls come from the same render, in which \<open>isRecording\<close>
  is false, and both are suspended before either goes on. The result is the pair of
  the ids returned and the state at the end.
\<close>

definition ex_two_starts :: "string option \<times> string option \<times> audio_state" where
  "ex_two_starts =
     (case startRecording_begin True False (Some ''seg-1'') None ex_env_ok audio_init of
        (call1, s1) \<Rightarrow>
          (case startRecording_begin True False (Some ''seg-2'') None ex_env_ok s1 of
             (call2, s2) \<Rightarrow>
               (case resume_result call1 ex_env_ok s2 of
                  (id1, s3) \<Rightarrow>
                    (case resume_result call2 ex_env_ok s3 of
                       (id2, s4) \<Rightarrow> (id1, id2, s4)))))"

section \<open>Properties of the rounding to doubles\<close>

text \<open>The equations that evaluate the rounding of a given number.\<close>

lemmas double_eval =
  to_double_def nearest_def ulp_of_def expo2_def pow2_def round_even_def Let_def
  bit_length.simps


lemma pow2_powi: "pow2 k = 2 powi k"
  by (simp add: pow2_def power_int_def inverse_eq_divide power_one_over)




lemma pow2_strict_mono: "a < b \<Longrightarrow> pow2 a < pow2 b"
  by (simp add: pow2_powi power_int_strict_increasing)





















section \<open>Properties of the sampling period\<close>


text \<open>The quotient is rounded to a double before \<^verbatim>\<open>Math.round\<close> sees it: for the
  double nearest to 95.23809523809524 the quotient is just below 10.5 on the reals
  and is 10.5 as a double, so the period is 11.\<close>

lemma periodMs_rounded_quotient:
  "periodMs (Num (1675446289944381 / 17592186044416)) = Num 11
   \<and> round (1000 / (1675446289944381 / 17592186044416 :: real)) = 10"
  by (simp add: periodMs_def double_eval round_def)




section \<open>Properties of the sampler\<close>

lemma gazeListener_samples: "samplesRef (gazeListener d ts t st) = samplesRef st"
  by (simp add: gazeListener_def split: option.splits)

lemma session_run_Cons:
  "session_run fmt st (e # evs) = session_run fmt (session_step fmt st e) evs"
  by (simp add: session_run_def)

lemma session_count:
  "length (samplesRef (session_run fmt st evs))
     = length (samplesRef st) + ticks_with_gaze fmt st evs"
proof (induction evs arbitrary: st)
  case Nil
  show ?case by (simp add: session_run_def)
next
  case (Cons e evs)
  show ?case
  proof (cases e)
    case (Gaze d ts t)
    then show ?thesis
      using Cons.IH [of "gazeListener d ts t st"]
      by (simp add: session_run_Cons gazeListener_samples)
  next
    case (Tick win)
    then show ?thesis
      using Cons.IH [of "sampler_tick fmt win st"]
      by (simp add: session_run_Cons sampler_tick_def split: option.splits)
  qed
qed

text \<open>
  C1. Within one recording session, a tick at which the slot of the latest gaze point
  is empty appends no row to the sample buffer, a tick at which it holds a point
  appends exactly one row, and after any run of ticks and gaze updates the buffer has
  grown by the number of ticks that found a point.
\<close>

theorem sampler_rows:
  "(lastGazeRef st = None \<longrightarrow> samplesRef (sampler_tick fmt win st) = samplesRef st)
   \<and> (\<forall>g. lastGazeRef st = Some g \<longrightarrow>
         samplesRef (sampler_tick fmt win st) = samplesRef st @ [sample_row fmt win st g])
   \<and> length (samplesRef (session_run fmt st evs))
       = length (samplesRef st) + ticks_with_gaze fmt st evs"
  using session_count [of fmt st evs] by (simp add: sampler_tick_def)

theorem sampler_rows_witness:
  "lastGazeRef (mount ex_window ''s'') = None
   \<and> samplesRef (sampler_tick ex_fmt ex_window (mount ex_window ''s'')) = []
   \<and> lastGazeRef (session_run ex_fmt (mount ex_window ''s'') (take 2 ex_events))
       = Some \<lparr>gaze_x = Num 120, gaze_y = Num 900, gaze_ts = 10\<rparr>
   \<and> length (samplesRef (sampler_tick ex_fmt ex_window
         (session_run ex_fmt (mount ex_window ''s'') (take 2 ex_events)))) = 1
   \<and> ticks_with_gaze ex_fmt (mount ex_window ''s'') ex_events = 2
   \<and> length (samplesRef (session_run ex_fmt (mount ex_window ''s'') ex_events)) = 2"
proof -
  have empty: "lastGazeRef (mount ex_window ''s'') = None"
    and none: "samplesRef (mount ex_window ''s'') = []"
    by (simp_all add: mount_def)
  have filled: "lastGazeRef (session_run ex_fmt (mount ex_window ''s'') (take 2 ex_events))
       = Some \<lparr>gaze_x = Num 120, gaze_y = Num 900, gaze_ts = 10\<rparr>"
    and still: "samplesRef (session_run ex_fmt (mount ex_window ''s'') (take 2 ex_events)) = []"
    by (simp_all add: ex_events_def session_run_def mount_def gazeListener_def sampler_tick_def)
  have count: "ticks_with_gaze ex_fmt (mount ex_window ''s'') ex_events = 2"
    by (simp add: ex_events_def mount_def gazeListener_def sampler_tick_def)
  show ?thesis
    using sampler_rows [of "mount ex_window ''s''" ex_fmt ex_window ex_events]
      sampler_rows [of "session_run ex_fmt (mount ex_window ''s'') (take 2 ex_events)"
        ex_fmt ex_window "[]"]
      empty none filled still count
    by simp
qed

section \<open>Properties of the CSV export\<close>

lemma double_quotes_plain: "\<not> needs_quoting s \<Longrightarrow> double_quotes s = s"
  by (induction s) (auto simp: needs_quoting_def double_quotes_def)

text \<open>The escaping of the application shell does what the specification says, on
  every value.\<close>

lemma csvEscape_App_spec:
  "csvEscape_App fmt JNull = [] \<and> csvEscape_App fmt JUndefined = []
   \<and> (v \<noteq> JNull \<and> v \<noteq> JUndefined \<and> needs_quoting (js_String fmt v) \<longrightarrow>
        csvEscape_App fmt v = [dquote] @ double_quotes (js_String fmt v) @ [dquote])
   \<and> (v \<noteq> JNull \<and> v \<noteq> JUndefined \<and> \<not> needs_quoting (js_String fmt v) \<longrightarrow>
        csvEscape_App fmt v = js_String fmt v)"
  by (simp add: csvEscape_App_def Let_def)

lemma csvEscape_App_example:
  "csvEscape_App fmt (JStr (''a,b'' @ [dquote] @ ''c''))
     = [dquote] @ ''a,b'' @ [dquote, dquote] @ ''c'' @ [dquote]"
  by (simp add: csvEscape_App_def needs_quoting_def double_quotes_def dquote_def)

lemma csvEscape_agree_plain:
  "\<not> needs_quoting (js_String fmt v) \<Longrightarrow> csvEscape_GazeRecorder fmt v = csvEscape_App fmt v"
  by (simp add: csvEscape_GazeRecorder_def csvEscape_App_def Let_def)

text \<open>
  C3. The escaping function returns the empty string for \<^verbatim>\<open>null\<close> and
  \<^verbatim>\<open>undefined\<close>, wraps a string form with a comma, a double quote or a newline in
  double quotes with every inner double quote doubled, and returns any other string
  form unchanged. The function of \<^verbatim>\<open>GazeRecorder.jsx\<close> does not: on the input
  \<^verbatim>\<open>a,b"c\<close> it returns the text of its own template, not \<^verbatim>\<open>"a,b""c"\<close>.
\<close>

theorem csvEscape_GazeRecorder_literal:
  "csvEscape_GazeRecorder fmt (JStr (''a,b'' @ [dquote] @ ''c'')) = escaped_template
   \<and> escaped_template \<noteq> [dquote] @ ''a,b'' @ [dquote, dquote] @ ''c'' @ [dquote]"
  by (simp add: csvEscape_GazeRecorder_def needs_quoting_def escaped_template_def dquote_def)

text \<open>
  C4. The escaping used for the gaze samples and the audio log agrees with the one
  used for the psychometric responses and the demographics on every value. It does
  not: the two differ on a field with a comma.
\<close>

theorem csvEscape_differ:
  "csvEscape_GazeRecorder fmt (JStr ''btn,primary'') = escaped_template
   \<and> csvEscape_App fmt (JStr ''btn,primary'') = [dquote] @ ''btn,primary'' @ [dquote]
   \<and> csvEscape_GazeRecorder fmt (JStr ''btn,primary'')
        \<noteq> csvEscape_App fmt (JStr ''btn,primary'')"
  by (simp add: csvEscape_GazeRecorder_def csvEscape_App_def needs_quoting_def
      escaped_template_def dquote_def double_quotes_def)

lemma set_first_seen: "set (first_seen ks) = set ks"
  by (induction ks) auto

lemma distinct_first_seen: "distinct (first_seen ks)"
  by (induction ks) (auto simp: set_first_seen)

lemma first_seen_distinct: "distinct ks \<Longrightarrow> first_seen ks = ks"
proof (induction ks)
  case Nil
  show ?case by simp
next
  case (Cons k ks)
  then have "filter (\<lambda>x. x \<noteq> k) ks = ks"
    by (auto intro: filter_True)
  with Cons show ?case by simp
qed

lemma foldl_Set_add:
  "foldl Set_add hs ks = hs @ filter (\<lambda>x. x \<notin> set hs) (first_seen ks)"
proof (induction ks arbitrary: hs)
  case Nil
  show ?case by simp
next
  case (Cons k ks)
  show ?case
  proof (cases "k \<in> set hs")
    case True
    have "filter (\<lambda>x. x \<noteq> k \<and> x \<notin> set hs) (first_seen ks)
            = filter (\<lambda>x. x \<notin> set hs) (first_seen ks)"
      using True by (intro filter_cong) auto
    with True Cons.IH [of hs] show ?thesis
      by (simp add: Set_add_def)
  next
    case False
    from False Cons.IH [of "hs @ [k]"] show ?thesis
      by (simp add: Set_add_def)
  qed
qed

lemma foldl_rows:
  "foldl (\<lambda>hs r. foldl Set_add hs (Object_keys r)) hs rows
     = foldl Set_add hs (concat (map Object_keys rows))"
  by (induction rows arbitrary: hs) simp_all

lemma header_App_first_seen: "header_App rows = spec_header rows"
  unfolding header_App_def spec_header_def foldl_rows by (simp add: foldl_Set_add)

lemma first_seen_append:
  "first_seen (xs @ ys) = first_seen xs @ filter (\<lambda>x. x \<notin> set xs) (first_seen ys)"
  using foldl_Set_add [of "[]" "xs @ ys"] foldl_Set_add [of "[]" xs]
    foldl_Set_add [of "first_seen xs" ys]
  by (simp add: set_first_seen)

lemma spec_header_same_keys:
  assumes same: "\<forall>r \<in> set rows. Object_keys r = ks" and dist: "distinct ks"
    and ne: "rows \<noteq> []"
  shows "spec_header rows = ks"
proof -
  obtain r rs where rows: "rows = r # rs"
    using ne by (cases rows) auto
  have sub: "set (concat (map Object_keys rs)) \<subseteq> set ks"
    using same rows by auto
  have "filter (\<lambda>x. x \<notin> set ks) (first_seen (concat (map Object_keys rs))) = []"
    using sub by (auto simp: filter_empty_conv set_first_seen)
  moreover have "Object_keys r = ks"
    using same rows by simp
  ultimately show ?thesis
    using dist by (simp add: spec_header_def rows first_seen_append first_seen_distinct)
qed

text \<open>The encoder of the application shell emits the keys of all rows, each once, in
  the order of their first occurrence, and every data line lists the escaped values of
  those keys in that order.\<close>

lemma downloadCsv_App_union:
  assumes "rows \<noteq> []"
  shows "downloadCsv_App fmt proto filename rows
       = Some (filename, join [newline]
           (join '','' (spec_header rows)
            # map (\<lambda>r. join '','' (map (\<lambda>k. csvEscape_App fmt (get_prop proto r k))
                                      (spec_header rows))) rows))"
    and "set (spec_header rows) = (\<Union>r \<in> set rows. set (Object_keys r))"
    and "distinct (spec_header rows)"
  using assms
  by (simp_all add: downloadCsv_App_def header_App_first_seen csv_lines_def Let_def
      spec_header_def set_first_seen distinct_first_seen)

lemma downloadCsv_App_example:
  "downloadCsv_App ex_fmt ex_proto ''f.csv'' ex_rows
     = Some (''f.csv'',
         ''a,b'' @ [newline] @ ''1,'' @ [newline] @ '','' @ [dquote] @ ''x,y'' @ [dquote])"
  by (simp add: downloadCsv_App_def header_App_def Set_add_def ex_rows_def csv_lines_def
      Object_keys_def get_prop_def ex_proto_def csvEscape_App_def needs_quoting_def
      double_quotes_def dquote_def newline_def)

text \<open>The rows of the gaze samples all have the keys of the object literal in the
  sampler, so the keys of the first row are the keys of all rows in the order of
  their first occurrence.\<close>

lemma Object_keys_sample_row:
  "Object_keys (sample_row fmt win st g) =
     [''session_id'', ''ts_ms'', ''gaze_x_px'', ''gaze_y_px'', ''gaze_x_norm'', ''gaze_y_norm'',
      ''scroll_y'', ''audio_recording'', ''audio_segment_id'', ''audio_ts_ms'', ''content_id'',
      ''content_type'', ''question_id'', ''element_tag'', ''element_id'', ''element_class'',
      ''bbox_x'', ''bbox_y'', ''bbox_w'', ''bbox_h'']"
  by (simp add: sample_row_def Object_keys_def Let_def)

lemma sample_keys_step:
  assumes "\<forall>r \<in> set (samplesRef st). Object_keys r = ks"
    and "\<And>win g. Object_keys (sample_row fmt win st g) = ks"
  shows "\<forall>r \<in> set (samplesRef (session_step fmt st e)). Object_keys r = ks"
proof (cases e)
  case (Gaze d ts t)
  then show ?thesis
    using assms(1) by (simp add: gazeListener_samples)
next
  case (Tick win)
  then show ?thesis
    using assms by (auto simp: sampler_tick_def split: option.splits)
qed

lemma sample_keys_run:
  "\<forall>r \<in> set (samplesRef st). Object_keys r = Object_keys (sample_row fmt w s g)
   \<Longrightarrow> \<forall>r \<in> set (samplesRef (session_run fmt st evs)).
         Object_keys r = Object_keys (sample_row fmt w s g)"
proof (induction evs arbitrary: st)
  case Nil
  then show ?case by (simp add: session_run_def)
next
  case (Cons e evs)
  have "\<forall>r \<in> set (samplesRef (session_step fmt st e)).
          Object_keys r = Object_keys (sample_row fmt w s g)"
    using Cons.prems by (rule sample_keys_step) (simp add: Object_keys_sample_row)
  then show ?case
    unfolding session_run_Cons by (rule Cons.IH)
qed

lemma gaze_rows_header:
  assumes "samplesRef st = []" and "samplesRef (session_run fmt st evs) \<noteq> []"
  shows "Object_keys (hd (samplesRef (session_run fmt st evs)))
           = spec_header (samplesRef (session_run fmt st evs))"
proof -
  let ?rows = "samplesRef (session_run fmt st evs)"
  fix w g
  let ?ks = "Object_keys (sample_row fmt w st g)"
  have all: "\<forall>r \<in> set ?rows. Object_keys r = ?ks"
    using assms(1) by (intro sample_keys_run) simp
  have "hd ?rows \<in> set ?rows"
    using assms(2) by simp
  then have hd: "Object_keys (hd ?rows) = ?ks"
    using all by blast
  have "distinct ?ks"
    unfolding Object_keys_sample_row by simp
  then have "spec_header ?rows = ?ks"
    using all assms(2) by (intro spec_header_same_keys)
  then show ?thesis
    using hd by simp
qed

text \<open>
  C5. For every non-empty sequence of rows passed to the encoder the header is the
  union of the keys of all rows in the order of their first occurrence, and every data
  line lists the escaped values of exactly those keys in that order. The export of the
  gaze samples does not: for a recording whose one sample has the class attribute
  \<^verbatim>\<open>btn,primary\<close>, the data line carries the text of the template of
  \<^verbatim>\<open>csvEscape\<close> in the place of the escaped value, where the encoder of the
  application shell, on the same rows, carries \<^verbatim>\<open>"btn,primary"\<close>.
\<close>

theorem download_unescaped_data_line:
  "download ex_fmt ex_proto ex_recording
     = Some (''gaze_session_s1.csv'',
         ''session_id,ts_ms,gaze_x_px,gaze_y_px,gaze_x_norm,gaze_y_norm,scroll_y,''
         @ ''audio_recording,audio_segment_id,audio_ts_ms,content_id,content_type,''
         @ ''question_id,element_tag,element_id,element_class,bbox_x,bbox_y,bbox_w,bbox_h''
         @ [newline]
         @ ''s1,234,50,100,0.050000,0.125000,0,0,,,btn_next,nav_button,question_1,button,,''
         @ escaped_template @ '',24,96,80,40'')
   \<and> downloadCsv_App ex_fmt ex_proto ''gaze_session_s1.csv'' (samplesRef ex_recording)
     = Some (''gaze_session_s1.csv'',
         ''session_id,ts_ms,gaze_x_px,gaze_y_px,gaze_x_norm,gaze_y_norm,scroll_y,''
         @ ''audio_recording,audio_segment_id,audio_ts_ms,content_id,content_type,''
         @ ''question_id,element_tag,element_id,element_class,bbox_x,bbox_y,bbox_w,bbox_h''
         @ [newline]
         @ ''s1,234,50,100,0.050000,0.125000,0,0,,,btn_next,nav_button,question_1,button,,''
         @ [dquote] @ ''btn,primary'' @ [dquote] @ '',24,96,80,40'')"
proof -
  have x_div: "js_div (Num 50) (Num 1000) = Num (3602879701896397 / 72057594037927936)"
    by (simp add: double_eval)
  have x_int: "nat (round ((3602879701896397 / 72057594037927936 :: real) * 1000000)) = 50000"
    by (simp add: round_def)
  have x_fix: "fixed6 (3602879701896397 / 72057594037927936) = ''0.050000''"
    unfolding fixed6_def Let_def x_int by (simp add: pad6_def)
  have x_norm: "toFixed6 ex_fmt (js_div (Num 50) (Num 1000)) = ''0.050000''"
    unfolding x_div using x_fix by simp
  have y_div: "js_div (Num 100) (Num 800) = Num (1 / 8)"
    by (simp add: double_eval)
  have y_int: "nat (round ((1 / 8 :: real) * 1000000)) = 125000"
    by (simp add: round_def)
  have y_fix: "fixed6 (1 / 8) = ''0.125000''"
    unfolding fixed6_def Let_def y_int by (simp add: pad6_def)
  have y_norm: "toFixed6 ex_fmt (js_div (Num 100) (Num 800)) = ''0.125000''"
    unfolding y_div using y_fix by simp
  have ts: "Math_round (js_sub 1234 1000) = Num 234"
    by (simp add: js_sub_def double_eval)
  have rows: "samplesRef ex_recording =
      [[(''session_id'', JStr ''s1''), (''ts_ms'', JNum (Num 234)),
        (''gaze_x_px'', JNum (Num 50)), (''gaze_y_px'', JNum (Num 100)),
        (''gaze_x_norm'', JStr ''0.050000''), (''gaze_y_norm'', JStr ''0.125000''),
        (''scroll_y'', JNum (Num 0)), (''audio_recording'', JNum (Num 0)),
        (''audio_segment_id'', JStr []), (''audio_ts_ms'', JStr []),
        (''content_id'', JStr ''btn_next''), (''content_type'', JStr ''nav_button''),
        (''question_id'', JStr ''question_1''), (''element_tag'', JStr ''button''),
        (''element_id'', JStr []), (''element_class'', JStr ''btn,primary''),
        (''bbox_x'', JNum (Num 24)), (''bbox_y'', JNum (Num 96)),
        (''bbox_w'', JNum (Num 80)), (''bbox_h'', JNum (Num 40))]]"
    using x_norm y_norm ts
    by (simp add: ex_recording_def session_run_def startRecording_GazeRecorder_def mount_def
        gazeListener_def sampler_tick_def sample_row_def clamp_def ex_window_button_def
        ex_button_def Let_def)
  have id: "sessionIdRef ex_recording = ''s1''"
    by (simp add: ex_recording_def session_run_def startRecording_GazeRecorder_def mount_def
        gazeListener_def sampler_tick_def)
  show ?thesis
    unfolding download_def id rows
    by (simp add: downloadCsv_GazeRecorder_def downloadCsv_App_def header_App_def Set_add_def
        csv_lines_def Object_keys_def get_prop_def csvEscape_GazeRecorder_def csvEscape_App_def
        needs_quoting_def double_quotes_def show_int_def dquote_def newline_def Let_def)
qed

section \<open>Properties of the calibration\<close>

lemma length_concat_replicate:
  "length (concat (map (replicate c) ps)) = length ps * c"
  by (induction ps) simp_all

lemma nth_concat_replicate:
  "n < length ps * c \<Longrightarrow> concat (map (replicate c) ps) ! n = ps ! (n div c)"
proof (induction ps arbitrary: n)
  case Nil
  then show ?case by simp
next
  case (Cons p ps)
  show ?case
  proof (cases "n < c")
    case True
    then show ?thesis by (simp add: nth_append)
  next
    case False
    then have ge: "c \<le> n" by simp
    from Cons.prems have c0: "0 < c" by (cases c) auto
    have "n - c < length ps * c"
      using Cons.prems ge by simp
    then have "concat (map (replicate c) ps) ! (n - c) = ps ! ((n - c) div c)"
      by (rule Cons.IH)
    moreover have "n div c = Suc ((n - c) div c)"
      using ge c0 by (simp add: le_div_geq)
    ultimately show ?thesis
      using False by (simp add: nth_append)
  qed
qed

lemma arith_done:
  fixes c n L :: nat
  assumes c0: "0 < c" and n: "n < L * c"
  shows "(c \<le> Suc (n mod c) \<and> L \<le> Suc (n div c)) = (\<not> Suc n < L * c)"
proof -
  define q where "q = n div c"
  define r where "r = n mod c"
  have n_eq: "n = q * c + r"
    by (simp add: q_def r_def)
  have r_lt: "r < c"
    using c0 by (simp add: r_def)
  have q_lt: "q < L"
    using n c0 by (simp add: q_def less_mult_imp_div_less)
  have up: "Suc q * c \<le> L * c"
    using q_lt by (intro mult_le_mono1) simp
  have "Suc n < L * c" if "Suc r < c"
    using that up n_eq by simp
  moreover have "Suc n < L * c" if "Suc q < L"
  proof -
    have "Suc (Suc q) * c \<le> L * c"
      using that by (intro mult_le_mono1) simp
    then show ?thesis
      using n_eq r_lt c0 by simp
  qed
  moreover have "\<not> Suc n < L * c" if "c \<le> Suc r" and "L \<le> Suc q"
  proof -
    have "L = Suc q" using that(2) q_lt by simp
    then have "L * c = q * c + c" by simp
    then show ?thesis
      using that(1) n_eq by simp
  qed
  ultimately show ?thesis
    unfolding q_def [symmetric] r_def [symmetric] by (meson not_less)
qed

lemma click_progress:
  assumes c0: "0 < c" and cal: "calibrating st" and idx: "calibIdx st = n div c"
    and clk: "calibClicks st = n mod c" and n: "n < length (calibPts st) * c"
  shows "calibIdx (clickDot c st) = Suc n div c"
    and "calibClicks (clickDot c st) = Suc n mod c"
    and "calibrating (clickDot c st) = (Suc n < length (calibPts st) * c)"
    and "calibPts (clickDot c st) = calibPts st"
    and "wgRecorded (clickDot c st) = wgRecorded st @ [calibPts st ! (n div c)]"
    and "status (clickDot c st) =
           (if Suc n < length (calibPts st) * c then status st else ''calibration done'')"
proof -
  let ?L = "length (calibPts st)"
  have lt: "n div c < ?L"
    using n c0 by (simp add: less_mult_imp_div_less)
  obtain x y where xy: "calibPts st ! (n div c) = (x, y)"
    by (cases "calibPts st ! (n div c)") auto
  have click: "clickDot c st = onCalibDotClick c x y st"
    using cal lt idx xy by (simp add: clickDot_def)
  show "calibPts (clickDot c st) = calibPts st"
    by (simp add: click onCalibDotClick_def Let_def)
  show "wgRecorded (clickDot c st) = wgRecorded st @ [calibPts st ! (n div c)]"
    by (simp add: click onCalibDotClick_def Let_def xy)
  have r_lt: "n mod c < c"
    using c0 by simp
  show "calibIdx (clickDot c st) = Suc n div c"
    using c0 r_lt by (simp add: click onCalibDotClick_def Let_def idx clk div_Suc mod_Suc)
  show "calibClicks (clickDot c st) = Suc n mod c"
    using c0 r_lt by (simp add: click onCalibDotClick_def Let_def idx clk div_Suc mod_Suc)
  have done_iff: "(c \<le> Suc (n mod c) \<and> ?L \<le> Suc (n div c)) = (\<not> Suc n < ?L * c)"
    using c0 n by (rule arith_done)

  show "calibrating (clickDot c st) = (Suc n < ?L * c)"
    using done_iff cal by (auto simp add: click onCalibDotClick_def Let_def idx clk)
  show "status (clickDot c st) =
           (if Suc n < ?L * c then status st else ''calibration done'')"
    using done_iff by (auto simp add: click onCalibDotClick_def Let_def idx clk)
qed


lemma clicks_progress:
  assumes c0: "0 < c" and cal: "calibrating st" and idx: "calibIdx st = 0"
    and clk: "calibClicks st = 0" and L0: "0 < length (calibPts st)"
  shows "n \<le> length (calibPts st) * c \<Longrightarrow>
     calibIdx ((clickDot c ^^ n) st) = n div c
     \<and> calibClicks ((clickDot c ^^ n) st) = n mod c
     \<and> calibrating ((clickDot c ^^ n) st) = (n < length (calibPts st) * c)
     \<and> calibPts ((clickDot c ^^ n) st) = calibPts st
     \<and> wgRecorded ((clickDot c ^^ n) st)
          = wgRecorded st @ take n (concat (map (replicate c) (calibPts st)))
     \<and> status ((clickDot c ^^ n) st)
          = (if n < length (calibPts st) * c then status st else ''calibration done'')"
proof (induction n)
  case 0
  show ?case
    using c0 cal idx clk L0 by simp
next
  case (Suc n)
  let ?s = "(clickDot c ^^ n) st"
  from Suc.prems have n: "n < length (calibPts st) * c" by simp
  with Suc.IH have ih:
    "calibIdx ?s = n div c" "calibClicks ?s = n mod c" "calibrating ?s"
    "calibPts ?s = calibPts st"
    "wgRecorded ?s = wgRecorded st @ take n (concat (map (replicate c) (calibPts st)))"
    "status ?s = status st"
    by simp_all
  have n': "n < length (calibPts ?s) * c"
    using n ih(4) by simp
  note step = click_progress [OF c0 ih(3) ih(1) ih(2) n']
  have nth: "concat (map (replicate c) (calibPts st)) ! n = calibPts st ! (n div c)"
    using n by (rule nth_concat_replicate)
  have take: "take (Suc n) (concat (map (replicate c) (calibPts st)))
      = take n (concat (map (replicate c) (calibPts st))) @ [calibPts st ! (n div c)]"
    using n by (simp add: take_Suc_conv_app_nth length_concat_replicate nth)
  show ?case
    using step ih by (simp add: take)
qed

lemma make9PointGrid_row_major:
  "make9PointGrid w h =
     [(round (w / 10), round (h / 10)), (round (w / 2), round (h / 10)),
      (round (9 * w / 10), round (h / 10)),
      (round (w / 10), round (h / 2)), (round (w / 2), round (h / 2)),
      (round (9 * w / 10), round (h / 2)),
      (round (w / 10), round (9 * h / 10)), (round (w / 2), round (9 * h / 10)),
      (round (9 * w / 10), round (9 * h / 10))]"
  by (simp add: make9PointGrid_def)

lemma length_make9PointGrid: "length (make9PointGrid w h) = 9"
  by (simp add: make9PointGrid_def)

text \<open>
  C6. With the grid of nine points and six clicks for each point, the run that
  follows a start of calibration is over after exactly 54 clicks on the dot and not
  before; after \<open>n\<close> clicks the point index is \<open>n div 6\<close> and the click count
  \<open>n mod 6\<close>, so every sixth click advances the index by one and resets the count; the
  clicks reach the estimator on the points of the grid in row-major order, six on each
  and none left out. (Each click is handled after the render that follows the
  previous one.)
\<close>

theorem calibration_54_clicks:
  assumes pts: "calibPts st = make9PointGrid w h" and n: "n \<le> 54"
  shows "calibIdx ((clickDot 6 ^^ n) (startCalibration st)) = n div 6
     \<and> calibClicks ((clickDot 6 ^^ n) (startCalibration st)) = n mod 6
     \<and> calibrating ((clickDot 6 ^^ n) (startCalibration st)) = (n < 54)
     \<and> status ((clickDot 6 ^^ n) (startCalibration st))
          = (if n < 54 then ''calibrating'' else ''calibration done'')
     \<and> wgRecorded ((clickDot 6 ^^ n) (startCalibration st))
          = wgRecorded st @ take n (concat (map (replicate 6) (make9PointGrid w h)))
     \<and> make9PointGrid w h =
         [(round (w / 10), round (h / 10)), (round (w / 2), round (h / 10)),
          (round (9 * w / 10), round (h / 10)),
          (round (w / 10), round (h / 2)), (round (w / 2), round (h / 2)),
          (round (9 * w / 10), round (h / 2)),
          (round (w / 10), round (9 * h / 10)), (round (w / 2), round (9 * h / 10)),
          (round (9 * w / 10), round (9 * h / 10))]"
proof -
  let ?st0 = "startCalibration st"
  have pts0: "calibPts ?st0 = make9PointGrid w h"
    using pts by (simp add: startCalibration_def)
  have len: "length (calibPts ?st0) = 9"
    by (simp add: pts0 length_make9PointGrid)
  have "n \<le> length (calibPts ?st0) * 6"
    using n len by simp
  moreover have "calibrating ?st0" "calibIdx ?st0 = 0" "calibClicks ?st0 = 0"
    "status ?st0 = ''calibrating''" "wgRecorded ?st0 = wgRecorded st"
    by (simp_all add: startCalibration_def)
  moreover have "0 < length (calibPts ?st0)"
    using len by simp
  ultimately show ?thesis
    using clicks_progress [of 6 ?st0 n] make9PointGrid_row_major [of w h]
    by (simp add: len pts0)
qed

theorem calibration_54_clicks_witness:
  "calibPts (mount ex_window ''s'') = make9PointGrid 1000 800 \<and> (54::nat) \<le> 54
   \<and> calibIdx ((clickDot 6 ^^ 54) (startCalibration (mount ex_window ''s''))) = 9
   \<and> calibClicks ((clickDot 6 ^^ 54) (startCalibration (mount ex_window ''s''))) = 0
   \<and> \<not> calibrating ((clickDot 6 ^^ 54) (startCalibration (mount ex_window ''s'')))
   \<and> status ((clickDot 6 ^^ 54) (startCalibration (mount ex_window ''s''))) = ''calibration done''"
proof -
  have h: "calibPts (mount ex_window ''s'') = make9PointGrid 1000 800"
    by (simp add: mount_def ex_window_def)
  show ?thesis
    using calibration_54_clicks [OF h, of 54] h by simp
qed

lemma calibPts_startCalibration: "calibPts (startCalibration st) = calibPts st"
  by (simp add: startCalibration_def)

lemma calibPts_clickDot: "calibPts (clickDot c st) = calibPts st"
  by (simp add: clickDot_def onCalibDotClick_def Let_def split: prod.splits)

lemma calibPts_calib_step: "calibPts (calib_step c st e) = calibPts st"
  by (cases e) (simp_all add: calibPts_startCalibration calibPts_clickDot)

lemma calibPts_calib_run: "calibPts (foldl (calib_step c) st evs) = calibPts st"
  by (induction evs arbitrary: st) (simp_all add: calibPts_calib_step)

text \<open>
  C7, as the code has it. Every start of calibration sets the point index and the
  click count to 0, sets \<open>calibrating\<close> and the status, and leaves the grid as it is:
  the grid is the one computed at the first render from the viewport of that moment,
  whatever starts, clicks, resizes and re-renders have happened since.
\<close>

theorem startCalibration_resets:
  "calibIdx (startCalibration st) = 0 \<and> calibClicks (startCalibration st) = 0
   \<and> calibrating (startCalibration st) \<and> status (startCalibration st) = ''calibrating''
   \<and> calibPts (startCalibration st) = calibPts st
   \<and> calibPts (foldl (calib_step c) (mount win sid) evs)
        = make9PointGrid (innerWidth win) (innerHeight win)"
  by (simp add: calibPts_calib_run) (simp add: startCalibration_def mount_def)

text \<open>
  C7, as the specification has it: a start of calibration recomputes the grid from
  the viewport of that moment. After a resize from 1000 by 800 to 500 by 400 a start
  of calibration still has the grid of 1000 by 800.
\<close>

theorem startCalibration_grid_counterexample:
  "calibPts (foldl (calib_step 6) (mount ex_window ''s'') [Resize 500 400, StartCalibration])
     = make9PointGrid 1000 800
   \<and> make9PointGrid 1000 800 \<noteq> make9PointGrid 500 400"
  by (simp add: calibPts_startCalibration) (simp add: mount_def ex_window_def make9PointGrid_def)

section \<open>Properties of the audio recorder hook\<close>

text \<open>A call that comes from a render in which \<open>isRecording\<close> is true returns the
  pending id and changes nothing.\<close>

lemma startRecording_guard:
  "startRecording True True rid m env st = (pendingIdRef st, st)"
  by (simp add: startRecording_def startRecording_begin_def resume_result_def)

lemma startRecording_started:
  "startRecording supp False rid m env st = (Some i, st')
   \<Longrightarrow> isRecording st' \<and> pendingIdRef st' = Some i"
  by (auto simp: startRecording_def startRecording_begin_def resume_result_def
      startRecording_resume_def ensureStream_resume_def start_catch_def Let_def
      split: if_splits sum.splits option.splits prod.splits)

text \<open>
  C8. A call of the start operation while a recording is in progress returns the id
  of that recording and creates no second segment and no second capture. The hook does
  not: the guard tests the \<open>isRecording\<close> of the render the callback comes from. Two
  starts issued from one render, the second while the first waits for the microphone,
  return the ids \<open>seg-1\<close> and \<open>seg-2\<close>, start two recorders, and leave \<open>seg-2\<close> as the
  pending id; so do two starts from one render of which the second follows the return
  of the first.
\<close>

theorem startRecording_twice_two_recorders:
  "fst ex_two_starts = Some ''seg-1''
   \<and> fst (snd ex_two_starts) = Some ''seg-2''
   \<and> map r_recordingId (startedRecorders (snd (snd ex_two_starts))) = [''seg-1'', ''seg-2'']
   \<and> pendingIdRef (snd (snd ex_two_starts)) = Some ''seg-2''
   \<and> fst (startRecording True False (Some ''seg-1'') None ex_env_ok audio_init) = Some ''seg-1''
   \<and> isRecording (snd (startRecording True False (Some ''seg-1'') None ex_env_ok audio_init))
   \<and> fst (startRecording True False (Some ''seg-2'') None ex_env_ok
         (snd (startRecording True False (Some ''seg-1'') None ex_env_ok audio_init)))
       = Some ''seg-2''
   \<and> map r_recordingId (startedRecorders (snd
         (startRecording True False (Some ''seg-2'') None ex_env_ok
           (snd (startRecording True False (Some ''seg-1'') None ex_env_ok audio_init)))))
       = [''seg-1'', ''seg-2'']"
  by (simp add: ex_two_starts_def startRecording_def startRecording_begin_def
      resume_result_def startRecording_resume_def ensureStream_resume_def audio_init_def
      ex_env_ok_def or_else_def Let_def)

text \<open>
  C9. If the acquisition of the audio input fails, the start operation returns no id,
  the error message of the hook is the message of the failure and is not empty, and
  \<open>isRecording\<close> is false afterwards; if the recorder reports an error during capture,
  the error message is not empty and \<open>isRecording\<close> is false afterwards. (The start
  operation tries to acquire the input when the browser supports it, the render it
  comes from has no recording in progress and no stream is held; the thrown error
  object has a name or a message. The failure may also reach a call that was
  suspended, whatever has happened to the state since.)
\<close>

theorem audio_failure_returns_to_idle:
  "(supp \<and> \<not> isRecordingOfRender \<and> streamRef st = None \<and> getUserMedia env = Inl e
      \<and> (err_name e \<noteq> [] \<or> err_message e \<noteq> []) \<longrightarrow>
      fst (startRecording supp isRecordingOfRender rid m env st) = None
      \<and> error (snd (startRecording supp isRecordingOfRender rid m env st)) = caught_message e
      \<and> error (snd (startRecording supp isRecordingOfRender rid m env st)) \<noteq> []
      \<and> \<not> isRecording (snd (startRecording supp isRecordingOfRender rid m env st))
      \<and> recordings (snd (startRecording supp isRecordingOfRender rid m env st))
          = recordings st)
   \<and> (call_stream c = None \<and> getUserMedia env = Inl e
      \<and> (err_name e \<noteq> [] \<or> err_message e \<noteq> []) \<longrightarrow>
      fst (startRecording_resume c env st'') = None
      \<and> error (snd (startRecording_resume c env st'')) = caught_message e
      \<and> error (snd (startRecording_resume c env st'')) \<noteq> []
      \<and> \<not> isRecording (snd (startRecording_resume c env st''))
      \<and> recordings (snd (startRecording_resume c env st'')) = recordings st'')
   \<and> error (recorder_onerror msg st') \<noteq> []
   \<and> \<not> isRecording (recorder_onerror msg st')"
  by (auto simp: startRecording_def startRecording_begin_def resume_result_def
      startRecording_resume_def start_catch_def ensureStream_resume_def Let_def
      caught_message_def Error_toString_def or_else_def recorder_onerror_def
      split: option.splits)

theorem audio_failure_returns_to_idle_witness:
  "\<not> isRecording audio_init \<and> streamRef audio_init = None
   \<and> getUserMedia ex_env_denied
        = Inl \<lparr>err_name = ''NotAllowedError'', err_message = ''Permission denied''\<rparr>
   \<and> fst (startRecording True False None None ex_env_denied audio_init) = None
   \<and> error (snd (startRecording True False None None ex_env_denied audio_init))
        = ''Permission denied''
   \<and> \<not> isRecording (snd (startRecording True False None None ex_env_denied audio_init))
   \<and> error (recorder_onerror None
         (snd (startRecording True False None None ex_env_ok audio_init)))
        = ''Audio recorder error.''
   \<and> \<not> isRecording (recorder_onerror None
         (snd (startRecording True False None None ex_env_ok audio_init)))"
proof -
  let ?e = "\<lparr>err_name = ''NotAllowedError'', err_message = ''Permission denied''\<rparr>"
  let ?c = "\<lparr>call_recordingId = ''uuid-2'', call_meta = None, call_stream = None\<rparr>"
  have hyp: "True \<and> \<not> False \<and> streamRef audio_init = None
      \<and> getUserMedia ex_env_denied = Inl ?e \<and> (err_name ?e \<noteq> [] \<or> err_message ?e \<noteq> [])"
    by (simp add: audio_init_def ex_env_denied_def)
  have hyp2: "call_stream ?c = None \<and> getUserMedia ex_env_denied = Inl ?e
      \<and> (err_name ?e \<noteq> [] \<or> err_message ?e \<noteq> [])"
    by (simp add: ex_env_denied_def)
  note inst = audio_failure_returns_to_idle [where supp = True and isRecordingOfRender = False
      and st = audio_init and env = ex_env_denied and e = ?e and rid = None and m = None
      and c = ?c and st'' = audio_init and msg = None
      and st' = "snd (startRecording True False None None ex_env_ok audio_init)"]
  note fail = inst [THEN conjunct1, THEN mp, OF hyp]
  note fail2 = inst [THEN conjunct2, THEN conjunct1, THEN mp, OF hyp2]
  have idle: "\<not> isRecording audio_init"
    by (simp add: audio_init_def)
  have msg: "caught_message ?e = ''Permission denied''"
    by (simp add: caught_message_def or_else_def)
  have onerr: "error (recorder_onerror None
         (snd (startRecording True False None None ex_env_ok audio_init)))
        = ''Audio recorder error.''"
    by (simp add: recorder_onerror_def or_else_def)
  show ?thesis
    using hyp idle fail fail2 inst [THEN conjunct2, THEN conjunct2] msg onerr by simp
qed

section \<open>Properties of the gaze listener\<close>

lemma slot_finite_gazeListener: "slot_finite st \<Longrightarrow> slot_finite (gazeListener data ts t st)"
  by (simp add: slot_finite_def gazeListener_def split: option.splits)

lemma slot_finite_tick: "slot_finite st \<Longrightarrow> slot_finite (sampler_tick fmt win st)"
  by (simp add: slot_finite_def sampler_tick_def split: option.splits)

lemma slot_finite_step: "slot_finite st \<Longrightarrow> slot_finite (session_step fmt st e)"
  by (cases e) (simp_all add: slot_finite_gazeListener slot_finite_tick)

lemma slot_finite_run: "slot_finite st \<Longrightarrow> slot_finite (session_run fmt st evs)"
  unfolding session_run_def
  by (induction evs arbitrary: st) (simp_all add: slot_finite_step)

lemma slot_finite_mount: "slot_finite (mount win sid)"
  by (simp add: slot_finite_def mount_def)

text \<open>
  C10. The slot of the latest gaze point is empty or holds a point with finite \<open>x\<close>
  and \<open>y\<close>: so it is at the first render and after every run of gaze updates and
  ticks, and a tick reads finite coordinates from it. An update with no payload or with
  a coordinate that is not finite leaves the state as it is.
\<close>

theorem gaze_slot_finite:
  "slot_finite (session_run fmt (mount win sid) evs)
   \<and> (\<forall>g. lastGazeRef (session_run fmt (mount win sid) evs) = Some g \<longrightarrow>
         (\<exists>x y. gaze_x g = Num x \<and> gaze_y g = Num y))
   \<and> (data = None \<or> (\<exists>d. data = Some d \<and> (\<not> isFinite (data_x d) \<or> \<not> isFinite (data_y d)))
        \<longrightarrow> gazeListener data ts t st = st)"
proof (intro conjI allI impI)
  show fin: "slot_finite (session_run fmt (mount win sid) evs)"
    by (intro slot_finite_run slot_finite_mount)
  show "\<exists>x y. gaze_x g = Num x \<and> gaze_y g = Num y"
    if "lastGazeRef (session_run fmt (mount win sid) evs) = Some g" for g
  proof -
    have "isFinite (gaze_x g)" "isFinite (gaze_y g)"
      using fin that by (simp_all add: slot_finite_def)
    then show ?thesis
      by (cases "gaze_x g"; cases "gaze_y g") simp_all
  qed
  show "gazeListener data ts t st = st"
    if "data = None \<or> (\<exists>d. data = Some d \<and> (\<not> isFinite (data_x d) \<or> \<not> isFinite (data_y d)))"
    using that by (auto simp: gazeListener_def)
qed

theorem gaze_slot_finite_witness:
  "lastGazeRef (session_run ex_fmt (mount ex_window ''s'') ex_events)
     = Some \<lparr>gaze_x = Num 120, gaze_y = Num 900, gaze_ts = 10\<rparr>
   \<and> slot_finite (session_run ex_fmt (mount ex_window ''s'') ex_events)
   \<and> \<not> isFinite (data_x \<lparr>data_x = NaN, data_y = Num 5\<rparr>)
   \<and> gazeListener (Some \<lparr>data_x = NaN, data_y = Num 5\<rparr>) (Some 15) 20
        (session_run ex_fmt (mount ex_window ''s'') (take 3 ex_events))
       = session_run ex_fmt (mount ex_window ''s'') (take 3 ex_events)"
proof -
  let ?d = "\<lparr>data_x = NaN, data_y = Num 5\<rparr>"
  let ?st = "session_run ex_fmt (mount ex_window ''s'') (take 3 ex_events)"
  have slot: "lastGazeRef (session_run ex_fmt (mount ex_window ''s'') ex_events)
     = Some \<lparr>gaze_x = Num 120, gaze_y = Num 900, gaze_ts = 10\<rparr>"
    by (simp add: ex_events_def session_run_def mount_def gazeListener_def sampler_tick_def)
  have bad: "Some ?d = None \<or> (\<exists>d. Some ?d = Some d \<and> (\<not> isFinite (data_x d) \<or> \<not> isFinite (data_y d)))"
    by simp
  note inst = gaze_slot_finite [of ex_fmt ex_window "''s''" ex_events "Some ?d" "Some 15" 20 ?st]
  have fin: "\<exists>x y. gaze_x \<lparr>gaze_x = Num 120, gaze_y = Num 900, gaze_ts = 10\<rparr> = Num x
      \<and> gaze_y \<lparr>gaze_x = Num 120, gaze_y = Num 900, gaze_ts = 10\<rparr> = Num y"
    using inst [THEN conjunct2, THEN conjunct1, THEN spec, THEN mp, OF slot] .
  show ?thesis
    using slot inst [THEN conjunct1] inst [THEN conjunct2, THEN conjunct2, THEN mp, OF bad]
    by simp
qed

end
